theory Spec2Isabelle
  imports Main "HOL-Library.Sublist" "HOL-Library.Word"
begin

section \<open>Car Pics API: the prompt pipeline of backend/app/main.py\<close>

text \<open>
  The module has three helpers and one endpoint: \<open>build_prompt\<close> merges a text into a
  style template, \<open>refine_user_prompt\<close> asks a text model to rewrite the user's prompt,
  \<open>generate_image_and_text\<close> collects the streamed output of an image model, and the
  endpoint \<open>generate\<close> validates the form, builds a client per request and runs the
  three in sequence.

  Python strings are modelled as \<open>string\<close>, each \<open>char\<close> read as a code point below 256;
  \<open>bytes\<close> as a list of 8-bit words. An exception is a value: a function that can raise
  returns \<open>exn + 'a\<close>, with \<open>Inl\<close> for the exception. Calls to the provider are recorded
  in a list of events, so that the order of the calls can be stated.
\<close>

subsection \<open>Exceptions\<close>

text \<open>
  The handlers of the module tell two classes apart: fastapi's \<open>HTTPException\<close>
  (status code and detail) and every other \<open>Exception\<close>, of which only \<open>str(e)\<close> is
  ever used.
\<close>

datatype exn = HTTPException nat string | Error string

fun str_exn :: "exn \<Rightarrow> string" where
  "str_exn (Error m) = m"
| "str_exn (HTTPException code detail) = detail"

subsection \<open>Python's string operations\<close>

text \<open>
  \<open>str.isspace\<close> on one code point below 256: the ASCII white space 9 to 13, the
  separators 28 to 31, the space 32, NEL 133 and the no-break space 160.
\<close>

definition isspace :: "char \<Rightarrow> bool" where
  "isspace c =
     (let n = (of_char c :: nat)
      in (9 \<le> n \<and> n \<le> 13) \<or> (28 \<le> n \<and> n \<le> 32) \<or> n = 133 \<or> n = 160)"

definition lstrip :: "string \<Rightarrow> string" where
  "lstrip s = dropWhile isspace s"

definition rstrip :: "string \<Rightarrow> string" where
  "rstrip s = rev (dropWhile isspace (rev s))"

text \<open>\<open>s.strip()\<close>: white space removed at both ends.\<close>

definition strip :: "string \<Rightarrow> string" where
  "strip s = lstrip (rstrip s)"

text \<open>\<open>s.startswith(p)\<close>.\<close>

definition startswith :: "string \<Rightarrow> string \<Rightarrow> bool" where
  "startswith s p = (take (length p) s = p)"

text \<open>\<open>x or d\<close> on an optional string: \<open>None\<close> and the empty string are falsy.\<close>

fun or_else :: "string option \<Rightarrow> string \<Rightarrow> string" where
  "or_else None d = d"
| "or_else (Some s) d = (if s = [] then d else s)"

subsection \<open>\<open>str.format\<close> with the one keyword argument \<open>user_prompt\<close>\<close>

text \<open>
  \<open>template.format(user_prompt=v)\<close> reads the template from left to right. \<open>{{\<close> and
  \<open>}}\<close> are literal braces, a lone \<open>}\<close> and a \<open>{\<close> at the end are errors, and any other
  \<open>{\<close> opens a replacement field. The text of a field runs over a field name (in which
  \<open>[\<close> hides everything up to the next \<open>]\<close>, and \<open>{\<close> is an error), an optional \<open>!\<close> with
  one conversion character, and an optional \<open>:\<close> with a format spec in which braces nest.
\<close>

datatype piece = Lit char | Field string

text \<open>
  The field name, up to the character that ends it (\<open>}\<close>, \<open>:\<close> or \<open>!\<close>). The flag says
  that the scan is inside \<open>[ ]\<close>.
\<close>

fun field_name :: "bool \<Rightarrow> string \<Rightarrow> string \<Rightarrow> exn + (string \<times> char \<times> string)" where
  "field_name idx acc [] = Inl (Error ''expected '}' before end of string'')"
| "field_name True acc (c # s) = field_name (c \<noteq> CHR '']'') (acc @ [c]) s"
| "field_name False acc (c # s) =
     (if c = CHR ''{'' then Inl (Error ''unexpected '{' in field name'')
      else if c = CHR ''['' then field_name True (acc @ [c]) s
      else if c = CHR ''}'' \<or> c = CHR '':'' \<or> c = CHR ''!'' then Inr (acc, c, s)
      else field_name False (acc @ [c]) s)"

text \<open>The format spec, up to the brace that closes the field; \<open>count\<close> is the nesting depth.\<close>

fun format_spec :: "nat \<Rightarrow> string \<Rightarrow> string \<Rightarrow> exn + (string \<times> string)" where
  "format_spec count acc [] = Inl (Error ''unmatched '{' in format spec'')"
| "format_spec count acc (c # s) =
     (if c = CHR ''{'' then format_spec (Suc count) (acc @ [c]) s
      else if c = CHR ''}'' then
        (if count - 1 = 0 then Inr (acc, s) else format_spec (count - 1) (acc @ [c]) s)
      else format_spec count (acc @ [c]) s)"

text \<open>
  One replacement field, from the character after its \<open>{\<close>: the text of the field and the
  rest of the template after its \<open>}\<close>.
\<close>

definition parse_field :: "string \<Rightarrow> exn + (string \<times> string)" where
  "parse_field s =
     (case field_name False [] s of
        Inl e \<Rightarrow> Inl e
      | Inr (name, c, r) \<Rightarrow>
          if c = CHR ''}'' then Inr (name, r)
          else if c = CHR ''!'' then
            (case r of
               [] \<Rightarrow> Inl (Error ''end of string while looking for conversion specifier'')
             | [cv] \<Rightarrow> format_spec 1 (name @ [c, cv]) []
             | cv # c2 # r2 \<Rightarrow>
                 if c2 = CHR ''}'' then Inr (name @ [c, cv], r2)
                 else if c2 \<noteq> CHR '':'' then
                   Inl (Error ''expected ':' after conversion specifier'')
                 else format_spec 1 (name @ [c, cv, c2]) r2)
          else format_spec 1 (name @ [c]) r)"

lemma field_name_rest: "field_name idx acc s = Inr (name, c, r) \<Longrightarrow> length r < length s"
  by (induction idx acc s rule: field_name.induct) (auto split: if_splits)

lemma format_spec_rest: "format_spec count acc s = Inr (f, r) \<Longrightarrow> length r < length s"
  by (induction count acc s rule: format_spec.induct) (auto split: if_splits)

lemma parse_field_rest: "parse_field s = Inr (f, r) \<Longrightarrow> length r < length s"
  unfolding parse_field_def
  by (auto split: sum.splits if_splits list.splits
           dest!: field_name_rest format_spec_rest)

text \<open>
  The template as the pieces read before the first syntax error, and that error if there
  is one: \<open>format\<close> writes the pieces it has read before it raises.
\<close>

function parse_template :: "string \<Rightarrow> piece list \<times> exn option" where
  "parse_template [] = ([], None)"
| "parse_template (c # s) =
     (if c = CHR ''}'' then
        (case s of
           [] \<Rightarrow> ([], Some (Error ''Single '}' encountered in format string''))
         | c' # s' \<Rightarrow>
             if c' = CHR ''}'' then (case parse_template s' of (ps, e) \<Rightarrow> (Lit c # ps, e))
             else ([], Some (Error ''Single '}' encountered in format string'')))
      else if c = CHR ''{'' then
        (case s of
           [] \<Rightarrow> ([], Some (Error ''Single '{' encountered in format string''))
         | c' # s' \<Rightarrow>
             if c' = CHR ''{'' then (case parse_template s' of (ps, e) \<Rightarrow> (Lit c # ps, e))
             else
               (case parse_field s of
                  Inl err \<Rightarrow> ([], Some err)
                | Inr (f, rest) \<Rightarrow>
                    (case parse_template rest of (ps, e) \<Rightarrow> (Field f # ps, e))))
      else (case parse_template s of (ps, e) \<Rightarrow> (Lit c # ps, e)))"
  by pat_completeness auto
termination
  by (relation "measure length") (auto dest: parse_field_rest)

text \<open>
  The value of a field. Only \<open>user_prompt\<close> is passed to \<open>format\<close>, so the field
  \<open>{user_prompt}\<close> is the argument itself. What Python does with any other field (another
  name, a conversion, a format spec, an attribute or an index) is the parameter \<open>other\<close>,
  from the text of the field and the argument.
\<close>

type_synonym field_eval = "string \<Rightarrow> string \<Rightarrow> exn + string"

fun render :: "field_eval \<Rightarrow> string \<Rightarrow> piece list \<Rightarrow> exn + string" where
  "render other v [] = Inr []"
| "render other v (Lit c # ps) =
     (case render other v ps of Inl e \<Rightarrow> Inl e | Inr out \<Rightarrow> Inr (c # out))"
| "render other v (Field f # ps) =
     (case (if f = ''user_prompt'' then Inr v else other f v) of
        Inl e \<Rightarrow> Inl e
      | Inr x \<Rightarrow> (case render other v ps of Inl e \<Rightarrow> Inl e | Inr out \<Rightarrow> Inr (x @ out)))"

definition str_format :: "field_eval \<Rightarrow> string \<Rightarrow> string \<Rightarrow> exn + string" where
  "str_format other template v =
     (case parse_template template of
        (ps, err) \<Rightarrow>
          (case render other v ps of
             Inl e \<Rightarrow> Inl e
           | Inr out \<Rightarrow> (case err of Some e \<Rightarrow> Inl e | None \<Rightarrow> Inr out)))"

text \<open>
  An instance of \<open>other\<close> for templates whose fields are plain names: a name that is not
  a keyword argument of the call raises KeyError.
\<close>

definition key_error :: field_eval where
  "key_error f v = Inl (Error f)"

subsection \<open>The style map and \<open>build_prompt\<close>\<close>

text \<open>
  \<open>STYLE_MAP: Dict[str, Dict[str, str]]\<close> is read from prompts.yml when the module is
  loaded. It is a parameter here, as association lists; \<open>d.get(k)\<close> is \<open>map_of d k\<close>.
\<close>

type_synonym style = "(string \<times> string) list"
type_synonym style_map = "(string \<times> style) list"

text \<open>\<open>(style_key or "none").strip()\<close>.\<close>

definition style_key_of :: "string option \<Rightarrow> string" where
  "style_key_of style_key = strip (or_else style_key ''none'')"

text \<open>Line 78: \<open>(style.get("template") or "{user_prompt}").strip()\<close>.\<close>

definition template_of :: "style \<Rightarrow> string" where
  "template_of style = strip (or_else (map_of style ''template'') ''{user_prompt}'')"

text \<open>
  \<open>build_prompt\<close>, lines 69 to 83. \<open>not style\<close> holds for \<open>None\<close> and for the empty
  dictionary. The \<open>try\<close> around \<open>format\<close> catches every \<open>Exception\<close>.
\<close>

definition build_prompt ::
    "style_map \<Rightarrow> field_eval \<Rightarrow> string \<Rightarrow> string option \<Rightarrow> exn + string" where
  "build_prompt STYLE_MAP other user_prompt style_key =
     (let key = style_key_of style_key in
      case map_of STYLE_MAP key of
        None \<Rightarrow> Inr (strip user_prompt)
      | Some style \<Rightarrow>
          if style = [] then Inr (strip user_prompt)
          else
            let template = template_of style in
            (case str_format other template (strip user_prompt) of
               Inr s \<Rightarrow> Inr s
             | Inl e \<Rightarrow> Inr (strip (template @ [CHR 0x0A, CHR 0x0A] @ user_prompt))))"

subsection \<open>The provider: responses, requests and the client\<close>

text \<open>
  The objects of google.genai.types that the module reads. Every attribute that the
  library declares optional is an option here. A streamed chunk has the type of a
  response. The property \<open>text\<close> of a response is read inside a \<open>try\<close>, so reading it
  may raise.
\<close>

type_synonym byte = "8 word"

datatype blob = Blob (blob_data: "byte list option") (blob_mime_type: "string option")

datatype part = Part (part_text: "string option") (part_inline_data: "blob option")

datatype content = Content (content_parts: "part list option")

datatype candidate = Candidate (candidate_content: "content option")

record response =
  response_text :: "exn + string option"
  candidates :: "candidate list option"

text \<open>\<open>types.Part.from_text(text=t)\<close> and \<open>types.Part.from_bytes(data=d, mime_type=m)\<close>.\<close>

definition from_text :: "string \<Rightarrow> part" where
  "from_text t = Part (Some t) None"

definition from_bytes :: "byte list \<Rightarrow> string \<Rightarrow> part" where
  "from_bytes d m = Part None (Some (Blob (Some d) (Some m)))"

text \<open>
  The call of the text model. The instruction of lines 98 to 111 is a fixed text with
  three holes: the word EDITING or GENERATION (\<open>has_image\<close>), the style label and the
  style description; the request keeps the three values. \<open>user_request\<close> is the text of
  the second part, \<open>thinking\<close> says whether the thinking configuration is passed.
\<close>

record text_request =
  model :: string
  instruction_has_image :: bool
  instruction_style_label :: string
  instruction_style_desc :: string
  user_request :: string
  thinking :: bool

record stream_request =
  stream_model :: string
  stream_parts :: "part list"

text \<open>
  A client answers a call of \<open>generate_content\<close> with a response or an exception, and a
  call of \<open>generate_content_stream\<close> with the chunks it yields, followed by an exception
  if the stream breaks (with no chunks if the call itself raises).
\<close>

record client =
  generate_content :: "text_request \<Rightarrow> exn + response"
  generate_content_stream :: "stream_request \<Rightarrow> response list \<times> exn option"

datatype event =
    Construct string
  | SetContext
  | GenerateContent text_request
  | GenerateContentStream stream_request
  | ResetContext

text \<open>\<open>_get_client\<close>, lines 63 to 67, on the value of the context variable.\<close>

definition get_client :: "client option \<Rightarrow> exn + client" where
  "get_client ctx =
     (case ctx of
        None \<Rightarrow> Inl (Error ''No Google GenAI client set in request context'')
      | Some cli \<Rightarrow> Inr cli)"

subsection \<open>\<open>refine_user_prompt\<close>\<close>

text \<open>Lines 137 to 141: \<open>getattr(resp, "text", "") or ""\<close>, and the empty string if that raises.\<close>

definition text_or_empty :: "response \<Rightarrow> string" where
  "text_or_empty resp = (case response_text resp of Inl e \<Rightarrow> [] | Inr t \<Rightarrow> or_else t [])"

text \<open>
  Lines 144 to 149: the texts of the parts of the first candidate, joined. Indexing
  \<open>None\<close> or an empty list raises, and so does reading \<open>parts\<close> of a missing content.
\<close>

definition join_candidate_text :: "response \<Rightarrow> exn + string" where
  "join_candidate_text resp =
     (case candidates resp of
        None \<Rightarrow> Inl (Error ''NoneType object is not subscriptable'')
      | Some [] \<Rightarrow> Inl (Error ''list index out of range'')
      | Some (cand # _) \<Rightarrow>
          (case candidate_content cand of
             None \<Rightarrow> Inl (Error ''NoneType object has no attribute parts'')
           | Some c \<Rightarrow>
               Inr (concat (map (\<lambda>p. or_else (part_text p) [])
                      (filter (\<lambda>p. or_else (part_text p) [] \<noteq> [])
                         (case content_parts c of None \<Rightarrow> [] | Some ps \<Rightarrow> ps))))))"

text \<open>Lines 137 to 151: the value of \<open>refined\<close> before the return.\<close>

definition extract_refined :: "response \<Rightarrow> string \<Rightarrow> string" where
  "extract_refined resp user_prompt =
     (let refined = text_or_empty resp in
      if refined = [] then
        (case join_candidate_text resp of
           Inl e \<Rightarrow> strip user_prompt
         | Inr t \<Rightarrow> t)
      else refined)"

text \<open>Line 153: \<open>(refined or user_prompt).strip()\<close>.\<close>

definition refined_or_prompt :: "string \<Rightarrow> string \<Rightarrow> string" where
  "refined_or_prompt refined user_prompt = strip (or_else (Some refined) user_prompt)"

text \<open>The request of lines 126 to 132 (with the thinking configuration) and of line 135.\<close>

definition refine_request ::
    "string \<Rightarrow> string \<Rightarrow> string \<Rightarrow> string \<Rightarrow> bool \<Rightarrow> bool \<Rightarrow> text_request" where
  "refine_request model_name user_prompt style_label style_desc has_image with_thinking =
     \<lparr>model = model_name, instruction_has_image = has_image,
      instruction_style_label = style_label, instruction_style_desc = style_desc,
      user_request = ''User request:'' @ [CHR 0x0A] @ strip user_prompt,
      thinking = with_thinking\<rparr>"

text \<open>
  \<open>refine_user_prompt\<close>, lines 86 to 153: the calls made and the value returned or the
  exception raised. The first call is inside a \<open>try\<close> that catches every \<open>Exception\<close>; the
  second is not.
\<close>

definition refine_user_prompt ::
    "client option \<Rightarrow> string \<Rightarrow> string \<Rightarrow> string \<Rightarrow> string \<Rightarrow> string \<Rightarrow> bool
       \<Rightarrow> event list \<times> (exn + string)" where
  "refine_user_prompt ctx model_name user_prompt style_key style_label style_desc has_image =
     (let req = refine_request model_name user_prompt style_label style_desc has_image in
      case get_client ctx of
        Inl e \<Rightarrow> ([], Inl e)
      | Inr cli \<Rightarrow>
          (case generate_content cli (req True) of
             Inr resp \<Rightarrow>
               ([GenerateContent (req True)],
                Inr (refined_or_prompt (extract_refined resp user_prompt) user_prompt))
           | Inl e1 \<Rightarrow>
               (case generate_content cli (req False) of
                  Inr resp \<Rightarrow>
                    ([GenerateContent (req True), GenerateContent (req False)],
                     Inr (refined_or_prompt (extract_refined resp user_prompt) user_prompt))
                | Inl e2 \<Rightarrow>
                    ([GenerateContent (req True), GenerateContent (req False)], Inl e2))))"

subsection \<open>\<open>generate_image_and_text\<close>\<close>

text \<open>
  \<open>base64.b64encode(data).decode("ascii")\<close>: three bytes give four characters, and the
  last group is padded with \<open>=\<close>.
\<close>

definition b64_char :: "nat \<Rightarrow> char" where
  "b64_char n =
     ''ABCDEFGHIJKLMNOPQRSTUVWXYZabcdefghijklmnopqrstuvwxyz0123456789+/'' ! n"

fun b64_groups :: "nat list \<Rightarrow> string" where
  "b64_groups [] = []"
| "b64_groups [a] = [b64_char (a div 4), b64_char ((a mod 4) * 16), CHR ''='', CHR ''='']"
| "b64_groups [a, b] =
     [b64_char (a div 4), b64_char ((a mod 4) * 16 + b div 16),
      b64_char ((b mod 16) * 4), CHR ''='']"
| "b64_groups (a # b # c # r) =
     [b64_char (a div 4), b64_char ((a mod 4) * 16 + b div 16),
      b64_char ((b mod 16) * 4 + c div 64), b64_char (c mod 64)] @ b64_groups r"

definition b64encode :: "byte list \<Rightarrow> string" where
  "b64encode d = b64_groups (map unat d)"

text \<open>The dictionary appended to \<open>images_out\<close>, and the dictionary returned.\<close>

record image =
  mime_type :: string
  base64 :: string
  data_url :: string

record gen_result =
  result_text :: string
  result_images :: "image list"

text \<open>
  The body of the loop, lines 170 to 179, on the two accumulators. A missing or empty
  list of candidates, a missing content, and a missing or empty list of parts are falsy;
  so are a missing or empty text, a missing blob, and missing or empty data.
\<close>

definition chunk_step ::
    "response \<Rightarrow> string list \<times> image list \<Rightarrow> string list \<times> image list" where
  "chunk_step chunk acc =
     (case acc of (text_out, images_out) \<Rightarrow>
        (case candidates chunk of
           None \<Rightarrow> acc
         | Some [] \<Rightarrow> acc
         | Some (cand # _) \<Rightarrow>
             (case candidate_content cand of
                None \<Rightarrow> acc
              | Some c \<Rightarrow>
                  (case content_parts c of
                     None \<Rightarrow> acc
                   | Some [] \<Rightarrow> acc
                   | Some (p # _) \<Rightarrow>
                       if or_else (part_text p) [] \<noteq> [] then
                         (text_out @ [or_else (part_text p) []], images_out)
                       else
                         (case part_inline_data p of
                            None \<Rightarrow> acc
                          | Some b \<Rightarrow>
                              (case blob_data b of
                                 None \<Rightarrow> acc
                               | Some d \<Rightarrow>
                                   if d = [] then acc
                                   else
                                     let mime = or_else (blob_mime_type b) ''image/png'';
                                         b64 = b64encode d
                                     in (text_out,
                                         images_out @
                                           [\<lparr>mime_type = mime, base64 = b64,
                                             data_url =
                                               ''data:'' @ mime @ '';base64,'' @ b64\<rparr>])))))))"

fun stream_loop ::
    "response list \<Rightarrow> string list \<times> image list \<Rightarrow> string list \<times> image list" where
  "stream_loop [] acc = acc"
| "stream_loop (chunk # chunks) acc = stream_loop chunks (chunk_step chunk acc)"

text \<open>Line 181, on the accumulators after the loop.\<close>

definition collect :: "response list \<Rightarrow> gen_result" where
  "collect chunks =
     (case stream_loop chunks ([], []) of
        (text_out, images_out) \<Rightarrow>
          \<lparr>result_text = strip (concat text_out), result_images = images_out\<rparr>)"

text \<open>
  \<open>generate_image_and_text\<close>, lines 156 to 181. An exception of the stream leaves the
  loop and the function.
\<close>

definition generate_image_and_text ::
    "client option \<Rightarrow> string \<Rightarrow> part list \<Rightarrow> event list \<times> (exn + gen_result)" where
  "generate_image_and_text ctx model_name parts =
     (case get_client ctx of
        Inl e \<Rightarrow> ([], Inl e)
      | Inr cli \<Rightarrow>
          (let req = \<lparr>stream_model = model_name, stream_parts = parts\<rparr> in
           case generate_content_stream cli req of
             (chunks, Some e) \<Rightarrow> ([GenerateContentStream req], Inl e)
           | (chunks, None) \<Rightarrow> ([GenerateContentStream req], Inr (collect chunks))))"

subsection \<open>The endpoint \<open>generate\<close>\<close>

text \<open>
  What the module reads from outside: the style map, the two model names (from the
  environment, with defaults), the constructor \<open>genai.Client\<close>, and Python's treatment
  of the fields of a template other than \<open>{user_prompt}\<close>.
\<close>

record env =
  STYLE_MAP :: style_map
  TEXT_MODEL_NAME :: string
  IMAGE_MODEL_NAME :: string
  Client :: "string \<Rightarrow> exn + client"
  format_other :: field_eval

definition MAX_IMAGE_BYTES :: nat where
  "MAX_IMAGE_BYTES = 7 * 1024 * 1024"

text \<open>The uploaded file \<open>image\<close>: its declared content type, and what \<open>await image.read()\<close> gives.\<close>

record upload =
  content_type :: "string option"
  read :: "exn + byte list"

text \<open>
  Lines 209 to 224: the style context and the call of the refiner. Line 210 computes the
  key as line 74 does.
\<close>

definition refine_step ::
    "env \<Rightarrow> client option \<Rightarrow> string \<Rightarrow> upload option \<Rightarrow> string option
       \<Rightarrow> event list \<times> (exn + string)" where
  "refine_step E ctx prompt image_file style =
     (let style_key = style_key_of style;
          style_obj = (case map_of (STYLE_MAP E) style_key of None \<Rightarrow> [] | Some d \<Rightarrow> d);
          style_label = (case map_of style_obj ''label'' of None \<Rightarrow> style_key | Some l \<Rightarrow> l);
          style_desc = strip (or_else (map_of style_obj ''template'') []);
          has_image = (image_file \<noteq> None)
      in refine_user_prompt ctx (TEXT_MODEL_NAME E) prompt style_key style_label style_desc
           has_image)"

text \<open>
  Lines 209 to 250, the body of the \<open>try\<close>, run with the context variable set: the
  events, and the dictionary returned or the exception raised.
\<close>

definition generate_body ::
    "env \<Rightarrow> client option \<Rightarrow> string \<Rightarrow> upload option \<Rightarrow> string option
       \<Rightarrow> event list \<times> (exn + gen_result)" where
  "generate_body E ctx prompt image_file style =
     (case refine_step E ctx prompt image_file style of
        (ev1, Inl e) \<Rightarrow> (ev1, Inl e)
      | (ev1, Inr refined) \<Rightarrow>
          (case build_prompt (STYLE_MAP E) (format_other E) refined
                  (Some (style_key_of style)) of
             Inl e \<Rightarrow> (ev1, Inl e)
           | Inr final_prompt \<Rightarrow>
               (case image_file of
                  None \<Rightarrow>
                    (case generate_image_and_text ctx (IMAGE_MODEL_NAME E)
                            [from_text final_prompt] of
                       (ev2, r) \<Rightarrow> (ev1 @ ev2, r))
                | Some img \<Rightarrow>
                    (let ctype = or_else (content_type img) [] in
                     if \<not> startswith ctype ''image/'' then
                       (ev1, Inl (HTTPException 400 ''image must be of type image/*''))
                     else
                       (case read img of
                          Inl e \<Rightarrow> (ev1, Inl e)
                        | Inr data \<Rightarrow>
                            if data = [] then
                              (ev1, Inl (HTTPException 400 ''image file is empty''))
                            else if length data > MAX_IMAGE_BYTES then
                              (ev1, Inl (HTTPException 400 ''image too large (>7MB)''))
                            else
                              (case generate_image_and_text ctx (IMAGE_MODEL_NAME E)
                                      [from_bytes data ctype, from_text final_prompt] of
                                 (ev2, r) \<Rightarrow> (ev1 @ ev2, r)))))))"

text \<open>
  Lines 252 to 255: an \<open>HTTPException\<close> is raised again, any other exception becomes a
  500 with its text.
\<close>

fun to_http :: "exn + gen_result \<Rightarrow> exn + gen_result" where
  "to_http (Inr r) = Inr r"
| "to_http (Inl (HTTPException code detail)) = Inl (HTTPException code detail)"
| "to_http (Inl (Error m)) = Inl (HTTPException 500 (''Generation failed: '' @ m))"

text \<open>
  One request: what the handler returns or raises, the value of the context variable
  \<open>_current_client\<close> when it leaves, and the events in order.
\<close>

record outcome =
  result :: "exn + gen_result"
  context_after :: "client option"
  events :: "event list"

text \<open>
  \<open>generate\<close>, lines 187 to 258, entered with the context variable at \<open>ctx\<close>.
  \<open>_current_client.set(client)\<close> returns a token that holds the old value, and
  \<open>reset(token)\<close> in the \<open>finally\<close> puts that value back.
\<close>

definition generate ::
    "env \<Rightarrow> client option \<Rightarrow> string \<Rightarrow> upload option \<Rightarrow> string option \<Rightarrow> string
       \<Rightarrow> outcome" where
  "generate E ctx prompt image_file style api_key =
     (if api_key = [] \<or> strip api_key = [] then
        \<lparr>result = Inl (HTTPException 400 ''api_key is required''),
         context_after = ctx, events = []\<rparr>
      else if prompt = [] \<or> strip prompt = [] then
        \<lparr>result = Inl (HTTPException 400 ''prompt is required''),
         context_after = ctx, events = []\<rparr>
      else
        (case Client E (strip api_key) of
           Inl e \<Rightarrow>
             \<lparr>result = Inl (HTTPException 400 ''Invalid api_key provided''),
              context_after = ctx, events = [Construct (strip api_key)]\<rparr>
         | Inr cli \<Rightarrow>
             (let token = ctx;
                  bound = Some cli
              in case generate_body E bound prompt image_file style of
                   (ev, r) \<Rightarrow>
                     \<lparr>result = to_http r,
                      context_after = token,
                      events = [Construct (strip api_key), SetContext] @ ev @ [ResetContext]\<rparr>)))"

subsection \<open>Templates with a placeholder, and a style map for the examples\<close>

text \<open>
  A template has the placeholder when one of the replacement fields that \<open>format\<close> reads
  in it is \<open>{user_prompt}\<close> itself.
\<close>

definition has_placeholder :: "string \<Rightarrow> bool" where
  "has_placeholder template = (Field ''user_prompt'' \<in> set (fst (parse_template template)))"

definition studio_styles :: style_map where
  "studio_styles =
     [(''studio'',
       [(''label'', ''Studio''),
        (''template'', ''Studio shot: {user_prompt}, softbox lighting'')]),
      (''plain'', [(''label'', ''Plain''), (''template'', ''{user_prompt}'')]),
      (''fixed'', [(''label'', ''Fixed''), (''template'', ''A red car'')]),
      (''broken'', [(''label'', ''Broken''), (''template'', ''Shot of {user_prompt'')])]"

subsection \<open>The generator as the specification words it\<close>

text \<open>
  The specification describes the loop of the generator as a reduction over one tagged
  fragment per chunk. These definitions follow its words, to be compared with
  \<open>chunk_step\<close> and \<open>collect\<close>: the first content part of the first candidate, the
  fragment it carries (text first, else inline binary data with the MIME type
  \<open>image/png\<close> when none is given), and the two outputs.
\<close>

datatype fragment = TextFragment string | ImageFragment image | NoFragment

definition first_part :: "response \<Rightarrow> part option" where
  "first_part chunk =
     (case candidates chunk of
        Some (Candidate (Some (Content (Some (p # ps)))) # cs) \<Rightarrow> Some p
      | _ \<Rightarrow> None)"

fun inline_fragment :: "blob option \<Rightarrow> fragment" where
  "inline_fragment (Some (Blob (Some d) m)) =
     (if d = [] then NoFragment
      else ImageFragment
             \<lparr>mime_type = or_else m ''image/png'', base64 = b64encode d,
              data_url = ''data:'' @ or_else m ''image/png'' @ '';base64,'' @ b64encode d\<rparr>)"
| "inline_fragment b = NoFragment"

fun fragment_of_part :: "part \<Rightarrow> fragment" where
  "fragment_of_part (Part (Some t) b) = (if t = [] then inline_fragment b else TextFragment t)"
| "fragment_of_part (Part None b) = inline_fragment b"

definition fragment_of :: "response \<Rightarrow> fragment" where
  "fragment_of chunk =
     (case first_part chunk of None \<Rightarrow> NoFragment | Some p \<Rightarrow> fragment_of_part p)"

fun texts_of :: "fragment list \<Rightarrow> string list" where
  "texts_of [] = []"
| "texts_of (TextFragment t # fs) = t # texts_of fs"
| "texts_of (f # fs) = texts_of fs"

fun images_of :: "fragment list \<Rightarrow> image list" where
  "images_of [] = []"
| "images_of (ImageFragment i # fs) = i # images_of fs"
| "images_of (f # fs) = images_of fs"

subsection \<open>An image that the endpoint refuses\<close>

text \<open>
  The three reasons of lines 233 to 239: a content type that does not start with
  \<open>image/\<close>, an empty payload, a payload of more than 7 MiB.
\<close>

definition invalid_image :: "upload \<Rightarrow> bool" where
  "invalid_image img =
     (\<not> startswith (or_else (content_type img) []) ''image/'' \<or>
      (case read img of Inl e \<Rightarrow> False | Inr d \<Rightarrow> d = [] \<or> length d > MAX_IMAGE_BYTES))"

subsection \<open>Clients and requests for the examples\<close>

definition text_response :: "string \<Rightarrow> response" where
  "text_response t =
     \<lparr>response_text = Inr (Some t),
      candidates = Some [Candidate (Some (Content (Some [Part (Some t) None])))]\<rparr>"

definition image_chunk :: "byte list \<Rightarrow> string option \<Rightarrow> response" where
  "image_chunk d m =
     \<lparr>response_text = Inr None,
      candidates = Some [Candidate (Some (Content (Some [Part None (Some (Blob (Some d) m))])))]\<rparr>"

definition empty_response :: response where
  "empty_response =
     \<lparr>response_text = Inr None, candidates = Some [Candidate (Some (Content None))]\<rparr>"

definition sample_chunks :: "response list" where
  "sample_chunks =
     [text_response ''Here '', empty_response, image_chunk [0x4D, 0x61] None,
      text_response ''you go '']"

text \<open>
  A client that answers, one whose thinking mode fails, one that always fails, and one
  whose responses carry nothing.
\<close>

definition good_client :: client where
  "good_client =
     \<lparr>generate_content = (\<lambda>req. Inr (text_response '' a red car at dusk '')),
      generate_content_stream = (\<lambda>req. (sample_chunks, None))\<rparr>"

definition no_thinking_client :: client where
  "no_thinking_client =
     \<lparr>generate_content =
        (\<lambda>req. if thinking req then Inl (Error ''thinking is not supported'')
               else Inr (text_response ''a red car at dusk'')),
      generate_content_stream = (\<lambda>req. (sample_chunks, None))\<rparr>"

definition failing_client :: client where
  "failing_client =
     \<lparr>generate_content = (\<lambda>req. Inl (Error ''model unavailable'')),
      generate_content_stream = (\<lambda>req. ([], Some (Error ''model unavailable'')))\<rparr>"

definition silent_client :: client where
  "silent_client =
     \<lparr>generate_content = (\<lambda>req. Inr empty_response),
      generate_content_stream = (\<lambda>req. ([], None))\<rparr>"

definition sample_env :: "client \<Rightarrow> env" where
  "sample_env cli =
     \<lparr>STYLE_MAP = studio_styles,
      TEXT_MODEL_NAME = ''gemini-2.5-flash'',
      IMAGE_MODEL_NAME = ''gemini-2.5-flash-image-preview'',
      Client = (\<lambda>key. if key = ''revoked'' then Inl (Error ''bad key'') else Inr cli),
      format_other = key_error\<rparr>"

definition text_upload :: upload where
  "text_upload = \<lparr>content_type = Some ''text/plain'', read = Inr [0x68, 0x69]\<rparr>"

definition large_upload :: upload where
  "large_upload = \<lparr>content_type = Some ''image/png'', read = Inr (replicate 7340033 0)\<rparr>"

section \<open>Properties\<close>

subsection \<open>Stripping\<close>

lemma strip_Nil: "strip [] = []"
  by (simp add: strip_def lstrip_def rstrip_def)

lemma rstrip_eq_Nil: "rstrip s = [] \<longleftrightarrow> (\<forall>c\<in>set s. isspace c)"
  by (auto simp: rstrip_def dropWhile_eq_Nil_conv)

lemma strip_eq_Nil: "strip s = [] \<longleftrightarrow> (\<forall>c\<in>set s. isspace c)"
proof -
  have "set (rstrip s) \<subseteq> set s"
    unfolding rstrip_def using set_dropWhileD[of _ isspace "rev s"] by auto
  moreover have "(\<forall>c\<in>set (rstrip s). isspace c) \<Longrightarrow> rstrip s = []"
    unfolding rstrip_def
    by (metis dropWhile_eq_Nil_conv dropWhile_idem rev_is_Nil_conv set_rev)
  ultimately show ?thesis
    unfolding strip_def lstrip_def
    by (auto simp: dropWhile_eq_Nil_conv rstrip_eq_Nil)
qed

lemma strip_decomp: "\<exists>a b. s = a @ strip s @ b \<and> (\<forall>c\<in>set a. isspace c) \<and> (\<forall>c\<in>set b. isspace c)"
proof -
  have 1: "rev s = takeWhile isspace (rev s) @ dropWhile isspace (rev s)" by simp
  have "s = rev (dropWhile isspace (rev s)) @ rev (takeWhile isspace (rev s))"
    using arg_cong[OF 1, of rev] by (simp del: takeWhile_dropWhile_id)
  then have 2: "s = rstrip s @ rev (takeWhile isspace (rev s))" by (simp add: rstrip_def)
  have 3: "rstrip s = takeWhile isspace (rstrip s) @ strip s"
    by (simp add: strip_def lstrip_def)
  have "s = takeWhile isspace (rstrip s) @ strip s @ rev (takeWhile isspace (rev s))"
    using 2 3 by (metis append.assoc)
  moreover have "\<forall>c\<in>set (takeWhile isspace (rstrip s)). isspace c"
    by (auto dest: set_takeWhileD)
  moreover have "\<forall>c\<in>set (rev (takeWhile isspace (rev s))). isspace c"
    by (auto dest: set_takeWhileD)
  ultimately show ?thesis by blast
qed

lemma strip_clean: 
  assumes "s \<noteq> [] \<Longrightarrow> \<not> isspace (hd s) \<and> \<not> isspace (last s)"
  shows "strip s = s"
proof (cases "s = []")
  case True then show ?thesis by (simp add: strip_Nil)
next
  case False
  with assms have h: "\<not> isspace (hd s)" and l: "\<not> isspace (last s)" by auto
  from False l have "rstrip s = s"
    unfolding rstrip_def by (cases "rev s") (auto simp: last_rev[symmetric] hd_rev simp del: last_rev)
  moreover from False h have "lstrip s = s" unfolding lstrip_def by (cases s) auto
  ultimately show ?thesis by (simp add: strip_def)
qed

lemma last_dropWhile: "dropWhile P xs \<noteq> [] \<Longrightarrow> last (dropWhile P xs) = last xs"
  by (induction xs) auto

lemma strip_ends:
  assumes "strip s \<noteq> []"
  shows "\<not> isspace (hd (strip s)) \<and> \<not> isspace (last (strip s))"
proof -
  from assms have ne: "dropWhile isspace (rstrip s) \<noteq> []"
    by (simp add: strip_def lstrip_def)
  then have h: "\<not> isspace (hd (strip s))"
    unfolding strip_def lstrip_def by (rule hd_dropWhile)
  from ne have r: "rstrip s \<noteq> []" by auto
  then have d: "dropWhile isspace (rev s) \<noteq> []" by (simp add: rstrip_def)
  have "last (strip s) = last (rstrip s)"
    unfolding strip_def lstrip_def using ne by (rule last_dropWhile)
  also have "\<dots> = hd (dropWhile isspace (rev s))"
    unfolding rstrip_def using d by (simp add: last_rev)
  finally have "\<not> isspace (last (strip s))"
    using hd_dropWhile[OF d] by simp
  with h show ?thesis by simp
qed

lemma strip_idem: "strip (strip s) = strip s"
  by (rule strip_clean) (rule strip_ends)

lemma sublist_strip: "sublist (strip s) s"
  using strip_decomp[of s] unfolding sublist_def by metis

lemma dropWhile_keep: "xs \<noteq> [] \<Longrightarrow> \<not> P (hd xs) \<Longrightarrow> dropWhile P (xs @ ys) = xs @ ys"
  by (cases xs) auto

lemma dropWhile_skip: "\<forall>c\<in>set xs. P c \<Longrightarrow> dropWhile P (xs @ ys) = dropWhile P ys"
  by (induction xs) auto

lemma strip_append_nonspace:
  assumes "\<exists>c\<in>set u. \<not> isspace c"
  shows "sublist (strip u) (strip (t @ u))"
proof -
  obtain a b where u: "u = a @ strip u @ b" and b: "\<forall>c\<in>set b. isspace c"
    using strip_decomp[of u] by blast
  have ne: "strip u \<noteq> []" using assms by (simp add: strip_eq_Nil)
  have l: "\<not> isspace (last (strip u))" using strip_ends[OF ne] by simp
  have "rev (t @ u) = rev b @ rev (strip u) @ rev a @ rev t" using u by (metis append.assoc rev_append)
  moreover have "dropWhile isspace (rev b @ rev (strip u) @ rev a @ rev t) = rev (strip u) @ rev a @ rev t"
  proof -
    have "rev (strip u) \<noteq> []" using ne by simp
    moreover have "\<not> isspace (hd (rev (strip u)))" using ne l by (simp add: hd_rev)
    ultimately have "dropWhile isspace (rev (strip u) @ rev a @ rev t) = rev (strip u) @ rev a @ rev t"
      by (rule dropWhile_keep)
    moreover have "\<forall>c\<in>set (rev b). isspace c" using b by simp
    ultimately show ?thesis by (simp add: dropWhile_skip)
  qed
  ultimately have rs: "rstrip (t @ u) = t @ a @ strip u"
    by (simp add: rstrip_def)
  have "\<exists>p. dropWhile isspace (t @ a @ strip u) = p @ strip u"
  proof -
    have h: "\<not> isspace (hd (strip u))" using strip_ends[OF ne] by simp
    have k: "dropWhile isspace (strip u) = strip u" using ne h by (cases "strip u") auto
    show ?thesis
    proof (cases "\<forall>c\<in>set (t @ a). isspace c")
      case True
      then have "dropWhile isspace ((t @ a) @ strip u) = dropWhile isspace (strip u)"
        by (rule dropWhile_skip)
      with k show ?thesis by (metis append_Nil append.assoc)
    next
      case False
      then have "dropWhile isspace ((t @ a) @ strip u) = dropWhile isspace (t @ a) @ strip u"
        by (metis dropWhile_append1)
      then show ?thesis by (metis append.assoc)
    qed
  qed
  then show ?thesis unfolding strip_def[of "t @ u"] lstrip_def rs sublist_def
    by (metis append_Nil2)
qed

lemma sublist_strip_fallback: "sublist (strip u) (strip (t @ u))"
proof (cases "\<exists>c\<in>set u. \<not> isspace c")
  case True then show ?thesis by (rule strip_append_nonspace)
next
  case False
  then have "strip u = []" by (simp add: strip_eq_Nil)
  then show ?thesis by simp
qed

lemma render_contains:
  "render other v ps = Inr out \<Longrightarrow> Field ''user_prompt'' \<in> set ps \<Longrightarrow> sublist v out"
proof (induction ps arbitrary: out)
  case Nil then show ?case by simp
next
  case (Cons p ps)
  show ?case
  proof (cases p)
    case (Lit c)
    with Cons.prems obtain o' where o': "render other v ps = Inr o'" "out = c # o'"
      by (auto split: sum.splits)
    with Cons Lit have "sublist v o'" by auto
    then show ?thesis using o' by (simp add: sublist_Cons_right)
  next
    case (Field f)
    with Cons.prems obtain x o' where x: "(if f = ''user_prompt'' then Inr v else other f v) = Inr x"
       and o': "render other v ps = Inr o'" "out = x @ o'"
      by (auto split: sum.splits if_splits)
    show ?thesis
    proof (cases "f = ''user_prompt''")
      case True
      with x have "x = v" by simp
      then show ?thesis using o' by (simp add: sublist_append_rightI)
    next
      case False
      with Cons.prems Field have "Field ''user_prompt'' \<in> set ps" by auto
      with Cons.IH o' have "sublist v o'" by blast
      then show ?thesis using o' unfolding sublist_def by (metis append.assoc)
    qed
  qed
qed

subsection \<open>\<open>build_prompt\<close>\<close>

text \<open>
  C3, as stated: for a style key that is not in the style map, \<open>build_prompt\<close> returns the
  text unchanged. It does not: the text comes back stripped. With the key \<open>none\<close>, which
  is not in the map, a text with a leading space loses it.
\<close>

theorem build_prompt_unchanged_counterexample:
  "map_of studio_styles ''none'' = None \<and>
   build_prompt studio_styles key_error '' a car'' (Some ''none'') \<noteq> Inr '' a car''"
  by (simp add: studio_styles_def build_prompt_def style_key_of_def strip_def lstrip_def
        rstrip_def isspace_def)

text \<open>
  C3, amended: the key is looked up after \<open>None\<close> and the empty string are replaced by
  \<open>none\<close> and after stripping. When that key is not in the style map, or its entry is
  empty, \<open>build_prompt\<close> returns the text stripped at both ends; so the text comes back
  unchanged exactly when it has no white space at its ends.
\<close>

theorem build_prompt_absent_style:
  assumes "map_of sm (style_key_of key) = None \<or> map_of sm (style_key_of key) = Some []"
  shows "build_prompt sm other text key = Inr (strip text) \<and>
         (build_prompt sm other text key = Inr text \<longleftrightarrow> strip text = text)"
  using assms by (auto simp: build_prompt_def)

theorem build_prompt_absent_style_witness:
  "(map_of studio_styles (style_key_of None) = None \<or>
    map_of studio_styles (style_key_of None) = Some []) \<and>
   build_prompt studio_styles key_error ''a car '' None = Inr ''a car'' \<and>
   build_prompt studio_styles key_error ''a car'' (Some []) = Inr ''a car''"
proof -
  have k: "style_key_of None = ''none''" "style_key_of (Some []) = ''none''"
    by (simp_all add: style_key_of_def strip_def lstrip_def rstrip_def isspace_def)
  have h: "map_of studio_styles ''none'' = None \<or> map_of studio_styles ''none'' = Some []"
    by (simp add: studio_styles_def)
  have s: "strip ''a car '' = ''a car''" "strip ''a car'' = ''a car''"
    by (simp_all add: strip_def lstrip_def rstrip_def isspace_def)
  have "build_prompt studio_styles key_error ''a car '' None = Inr ''a car''"
    using build_prompt_absent_style [of studio_styles None key_error "''a car ''"] h k s
    by simp
  moreover have "build_prompt studio_styles key_error ''a car'' (Some []) = Inr ''a car''"
    using build_prompt_absent_style [of studio_styles "Some []" key_error "''a car''"] h k s
    by simp
  ultimately show ?thesis using h k by simp
qed

text \<open>
  C4, as stated: for a non-empty text and a style with a template, the result contains the
  text. It does not: the text is stripped before it is merged, so the text \<open>" car "\<close> with
  the template \<open>{user_prompt}\<close> gives \<open>"car"\<close>; and a template without a placeholder yields
  itself, so the text \<open>"bus"\<close> with the template \<open>A red car\<close> gives \<open>"A red car"\<close>, which
  does not contain it.
\<close>

theorem build_prompt_substring_counterexample:
  "build_prompt studio_styles key_error '' car '' (Some ''plain'') = Inr ''car'' \<and>
   \<not> sublist '' car '' ''car'' \<and>
   build_prompt studio_styles key_error ''bus'' (Some ''fixed'') = Inr ''A red car'' \<and>
   \<not> sublist ''bus'' ''A red car''"
  by code_simp

text \<open>
  C4, amended: for every text and every style key whose entry is present and not empty,
  if the template of the entry (the default \<open>{user_prompt}\<close> when it has none) has the
  placeholder \<open>{user_prompt}\<close>, then \<open>build_prompt\<close> returns a string that contains the
  stripped text, whether \<open>format\<close> succeeds or the fallback is taken.
\<close>

theorem build_prompt_contains_text:
  assumes "map_of sm (style_key_of key) = Some style" and "style \<noteq> []"
      and "has_placeholder (template_of style)"
  shows "\<exists>s. build_prompt sm other text key = Inr s \<and> sublist (strip text) s"
proof (cases "str_format other (template_of style) (strip text)")
  case (Inl e)
  then have "build_prompt sm other text key
               = Inr (strip (template_of style @ [CHR 0x0A, CHR 0x0A] @ text))"
    using assms(1,2) by (simp add: build_prompt_def)
  moreover have "sublist (strip text) (strip ((template_of style @ [CHR 0x0A, CHR 0x0A]) @ text))"
    by (rule sublist_strip_fallback)
  ultimately show ?thesis by simp
next
  case (Inr s)
  then have b: "build_prompt sm other text key = Inr s"
    using assms(1,2) by (simp add: build_prompt_def)
  obtain ps err where p: "parse_template (template_of style) = (ps, err)"
    by (cases "parse_template (template_of style)")
  with Inr have "render other (strip text) ps = Inr s"
    by (auto simp: str_format_def split: sum.splits option.splits)
  moreover from p assms(3) have "Field ''user_prompt'' \<in> set ps"
    by (simp add: has_placeholder_def)
  ultimately have "sublist (strip text) s" by (rule render_contains)
  with b show ?thesis by simp
qed

theorem build_prompt_contains_text_witness:
  "map_of studio_styles (style_key_of (Some '' studio '')) =
     Some [(''label'', ''Studio''), (''template'', ''Studio shot: {user_prompt}, softbox lighting'')] \<and>
   has_placeholder (template_of
     [(''label'', ''Studio''), (''template'', ''Studio shot: {user_prompt}, softbox lighting'')]) \<and>
   build_prompt studio_styles key_error '' a car '' (Some '' studio '')
     = Inr ''Studio shot: a car, softbox lighting'' \<and>
   sublist (strip '' a car '') ''Studio shot: a car, softbox lighting''"
proof -
  let ?st = "[(''label'', ''Studio''), (''template'', ''Studio shot: {user_prompt}, softbox lighting'')]"
  have 1: "map_of studio_styles (style_key_of (Some '' studio '')) = Some ?st"
    by code_simp
  have 2: "?st \<noteq> []" by simp
  have 3: "has_placeholder (template_of ?st)" by code_simp
  have 4: "build_prompt studio_styles key_error '' a car '' (Some '' studio '')
             = Inr ''Studio shot: a car, softbox lighting''" by code_simp
  from build_prompt_contains_text [OF 1 2 3, of key_error "'' a car ''"] 4
  have "sublist (strip '' a car '') ''Studio shot: a car, softbox lighting''" by simp
  with 1 3 4 show ?thesis by simp
qed



subsection \<open>\<open>refine_user_prompt\<close>, properties\<close>

lemma refined_or_prompt_nonempty:
  assumes "strip up \<noteq> []" and "r = [] \<or> strip r \<noteq> []"
  shows "refined_or_prompt r up \<noteq> []"
  using assms by (auto simp: refined_or_prompt_def)

lemma extract_nothing:
  assumes "text_or_empty resp = []" and "\<forall>t. join_candidate_text resp = Inr t \<longrightarrow> t = []"
  shows "refined_or_prompt (extract_refined resp up) up = strip up"
proof (cases "join_candidate_text resp")
  case (Inl e)
  then have "extract_refined resp up = strip up" using assms(1) by (simp add: extract_refined_def)
  then show ?thesis by (simp add: refined_or_prompt_def strip_idem strip_Nil)
next
  case (Inr t)
  with assms(2) have "t = []" by simp
  with Inr have "extract_refined resp up = []" using assms(1) by (simp add: extract_refined_def)
  then show ?thesis by (simp add: refined_or_prompt_def)
qed

lemma refine_user_prompt_cases:
  "refine_user_prompt (Some cli) m up sk sl sd hi =
     (case generate_content cli (refine_request m up sl sd hi True) of
        Inr resp \<Rightarrow>
          ([GenerateContent (refine_request m up sl sd hi True)],
           Inr (refined_or_prompt (extract_refined resp up) up))
      | Inl e1 \<Rightarrow>
          (case generate_content cli (refine_request m up sl sd hi False) of
             Inr resp \<Rightarrow>
               ([GenerateContent (refine_request m up sl sd hi True),
                 GenerateContent (refine_request m up sl sd hi False)],
                Inr (refined_or_prompt (extract_refined resp up) up))
           | Inl e2 \<Rightarrow>
               ([GenerateContent (refine_request m up sl sd hi True),
                 GenerateContent (refine_request m up sl sd hi False)], Inl e2)))"
  by (simp add: refine_user_prompt_def get_client_def Let_def)

text \<open>
  C2, as stated, fails: when the call with the thinking configuration and the retry both raise,
  \<open>refine_user_prompt\<close> raises too (line 135 is outside any \<open>try\<close>), and a prompt of white
  space only, which is a non-empty string, gives the empty string (line 153).
\<close>

theorem refine_nonempty_counterexample:
  "snd (refine_user_prompt (Some failing_client) ''gemini-2.5-flash'' ''a car'' ''none'' ''none'' [] False)
     = Inl (Error ''model unavailable'') \<and>
   snd (refine_user_prompt (Some silent_client) ''gemini-2.5-flash'' '' '' ''none'' ''none'' [] False)
     = Inr []"
  by code_simp

text \<open>
  C2, amended: for a prompt that is not blank, when one of the two model calls returns a response
  whose extracted text is empty or has a character that is not white space, \<open>refine_user_prompt\<close>
  returns a non-empty string; and when the response has no text and no text in the parts of its
  first candidate (or reading them raises), the result is the stripped prompt.
\<close>

theorem refine_nonempty:
  assumes "strip user_prompt \<noteq> []"
      and "generate_content cli (refine_request model_name user_prompt style_label style_desc
             has_image True) = Inr resp \<or>
           ((\<exists>e. generate_content cli (refine_request model_name user_prompt style_label style_desc
                    has_image True) = Inl e) \<and>
            generate_content cli (refine_request model_name user_prompt style_label style_desc
              has_image False) = Inr resp)"
      and "extract_refined resp user_prompt = [] \<or> strip (extract_refined resp user_prompt) \<noteq> []"
  shows "\<exists>s. snd (refine_user_prompt (Some cli) model_name user_prompt style_key style_label
                  style_desc has_image) = Inr s \<and> s \<noteq> [] \<and>
             (text_or_empty resp = [] \<and> (\<forall>t. join_candidate_text resp = Inr t \<longrightarrow> t = [])
                \<longrightarrow> s = strip user_prompt)"
proof -
  let ?s = "refined_or_prompt (extract_refined resp user_prompt) user_prompt"
  have r: "snd (refine_user_prompt (Some cli) model_name user_prompt style_key style_label
                  style_desc has_image) = Inr ?s"
    using assms(2) unfolding refine_user_prompt_cases by auto
  have "?s \<noteq> []" using assms(1,3) by (rule refined_or_prompt_nonempty)
  with r show ?thesis using extract_nothing by blast
qed

theorem refine_nonempty_witness:
  "strip ''a car '' \<noteq> [] \<and>
   generate_content silent_client
       (refine_request ''gemini-2.5-flash'' ''a car '' ''none'' [] False True) = Inr empty_response \<and>
   extract_refined empty_response ''a car '' = [] \<and>
   text_or_empty empty_response = [] \<and>
   join_candidate_text empty_response = Inr [] \<and>
   snd (refine_user_prompt (Some silent_client) ''gemini-2.5-flash'' ''a car '' ''none'' ''none'' []
          False) = Inr ''a car''"
proof -
  have 1: "strip ''a car '' \<noteq> []" by code_simp
  have 2: "generate_content silent_client
             (refine_request ''gemini-2.5-flash'' ''a car '' ''none'' [] False True) = Inr empty_response"
    by (simp add: silent_client_def)
  have 3: "extract_refined empty_response ''a car '' = []" by code_simp
  have 4: "text_or_empty empty_response = []" by code_simp
  have 5: "join_candidate_text empty_response = Inr []" by code_simp
  have 6: "strip ''a car '' = ''a car''" by code_simp
  note t = refine_nonempty [where user_prompt = "''a car ''"
      and cli = silent_client and model_name = "''gemini-2.5-flash''" and style_label = "''none''"
      and style_desc = "[]" and has_image = False and style_key = "''none''"
      and resp = empty_response]
  have 7: "\<forall>t. join_candidate_text empty_response = Inr t \<longrightarrow> t = []"
    unfolding 5 by simp
  from t [OF 1 disjI1 [OF 2] disjI1 [OF 3]]
  obtain s where a: "snd (refine_user_prompt (Some silent_client) ''gemini-2.5-flash'' ''a car '' ''none''
               ''none'' [] False) = Inr s"
    and c: "text_or_empty empty_response = [] \<and>
            (\<forall>t. join_candidate_text empty_response = Inr t \<longrightarrow> t = []) \<longrightarrow> s = strip ''a car ''"
    by (elim exE conjE)
  from c 4 7 have "s = strip ''a car ''" by (elim impE) (rule conjI)
  with a 6 have "snd (refine_user_prompt (Some silent_client) ''gemini-2.5-flash'' ''a car '' ''none''
               ''none'' [] False) = Inr ''a car''" by (simp only:)
  with 1 2 3 4 5 show ?thesis by (intro conjI)
qed

text \<open>
  C6: the first call made by \<open>refine_user_prompt\<close> carries the thinking configuration; the call
  without it is made if and only if the first one raises, and then exactly once; the refiner
  returns a string as soon as one of the two calls returns, and the only error it lets through is
  the error of the retry.
\<close>

theorem refine_retries_once:
  "thinking (refine_request model_name user_prompt style_label style_desc has_image True) \<and>
   \<not> thinking (refine_request model_name user_prompt style_label style_desc has_image False) \<and>
   take 1 (fst (refine_user_prompt (Some cli) model_name user_prompt style_key style_label
                  style_desc has_image))
     = [GenerateContent (refine_request model_name user_prompt style_label style_desc has_image
          True)] \<and>
   ((\<exists>e. generate_content cli (refine_request model_name user_prompt style_label style_desc
            has_image True) = Inl e) \<longleftrightarrow>
      fst (refine_user_prompt (Some cli) model_name user_prompt style_key style_label style_desc
             has_image)
        = [GenerateContent (refine_request model_name user_prompt style_label style_desc
             has_image True),
           GenerateContent (refine_request model_name user_prompt style_label style_desc
             has_image False)]) \<and>
   ((\<exists>resp. generate_content cli (refine_request model_name user_prompt style_label style_desc
               has_image True) = Inr resp) \<longleftrightarrow>
      fst (refine_user_prompt (Some cli) model_name user_prompt style_key style_label style_desc
             has_image)
        = [GenerateContent (refine_request model_name user_prompt style_label style_desc
             has_image True)]) \<and>
   ((\<exists>resp. generate_content cli (refine_request model_name user_prompt style_label style_desc
               has_image True) = Inr resp \<or>
             generate_content cli (refine_request model_name user_prompt style_label style_desc
               has_image False) = Inr resp) \<longleftrightarrow>
      (\<exists>s. snd (refine_user_prompt (Some cli) model_name user_prompt style_key style_label
                  style_desc has_image) = Inr s)) \<and>
   (\<forall>e. snd (refine_user_prompt (Some cli) model_name user_prompt style_key style_label
                style_desc has_image) = Inl e \<longrightarrow>
        generate_content cli (refine_request model_name user_prompt style_label style_desc
          has_image False) = Inl e)"
proof -
  define r1 where "r1 = refine_request model_name user_prompt style_label style_desc has_image True"
  define r2 where "r2 = refine_request model_name user_prompt style_label style_desc has_image False"
  define out where "out = refine_user_prompt (Some cli) model_name user_prompt style_key
                            style_label style_desc has_image"
  have t: "thinking r1" "\<not> thinking r2"
    by (simp_all add: r1_def r2_def refine_request_def)
  have o: "out = (case generate_content cli r1 of
             Inr resp \<Rightarrow>
               ([GenerateContent r1],
                Inr (refined_or_prompt (extract_refined resp user_prompt) user_prompt))
           | Inl e1 \<Rightarrow>
               (case generate_content cli r2 of
                  Inr resp \<Rightarrow>
                    ([GenerateContent r1, GenerateContent r2],
                     Inr (refined_or_prompt (extract_refined resp user_prompt) user_prompt))
                | Inl e2 \<Rightarrow> ([GenerateContent r1, GenerateContent r2], Inl e2)))"
    unfolding out_def r1_def r2_def by (rule refine_user_prompt_cases)
  have "thinking r1 \<and> \<not> thinking r2 \<and> take 1 (fst out) = [GenerateContent r1] \<and>
        ((\<exists>e. generate_content cli r1 = Inl e) \<longleftrightarrow> fst out = [GenerateContent r1, GenerateContent r2]) \<and>
        ((\<exists>resp. generate_content cli r1 = Inr resp) \<longleftrightarrow> fst out = [GenerateContent r1]) \<and>
        ((\<exists>resp. generate_content cli r1 = Inr resp \<or> generate_content cli r2 = Inr resp)
           \<longleftrightarrow> (\<exists>s. snd out = Inr s)) \<and>
        (\<forall>e. snd out = Inl e \<longrightarrow> generate_content cli r2 = Inl e)"
  proof (cases "generate_content cli r1")
    case (Inr resp)
    with o t show ?thesis by auto
  next
    case a: (Inl e1)
    show ?thesis
    proof (cases "generate_content cli r2")
      case (Inl e2)
      with o t a show ?thesis by auto
    next
      case (Inr resp)
      with o t a show ?thesis by auto
    qed
  qed
  then show ?thesis unfolding r1_def r2_def out_def .
qed

theorem refine_retries_once_witness:
  "generate_content no_thinking_client
       (refine_request ''gemini-2.5-flash'' ''a car'' ''Studio'' [] False True)
     = Inl (Error ''thinking is not supported'') \<and>
   fst (refine_user_prompt (Some no_thinking_client) ''gemini-2.5-flash'' ''a car'' ''studio''
          ''Studio'' [] False)
     = [GenerateContent (refine_request ''gemini-2.5-flash'' ''a car'' ''Studio'' [] False True),
        GenerateContent (refine_request ''gemini-2.5-flash'' ''a car'' ''Studio'' [] False False)] \<and>
   snd (refine_user_prompt (Some no_thinking_client) ''gemini-2.5-flash'' ''a car'' ''studio''
          ''Studio'' [] False) = Inr ''a red car at dusk''"
proof -
  have 1: "generate_content no_thinking_client
             (refine_request ''gemini-2.5-flash'' ''a car'' ''Studio'' [] False True)
           = Inl (Error ''thinking is not supported'')"
    by (simp add: no_thinking_client_def refine_request_def)
  have 2: "snd (refine_user_prompt (Some no_thinking_client) ''gemini-2.5-flash'' ''a car''
                 ''studio'' ''Studio'' [] False) = Inr ''a red car at dusk''" by code_simp
  note t = refine_retries_once [where cli = no_thinking_client
         and model_name = "''gemini-2.5-flash''" and user_prompt = "''a car''"
         and style_label = "''Studio''" and style_desc = "[]" and has_image = False
         and style_key = "''studio''"]
  from t have "(\<exists>e. generate_content no_thinking_client
             (refine_request ''gemini-2.5-flash'' ''a car'' ''Studio'' [] False True) = Inl e) \<longleftrightarrow>
     fst (refine_user_prompt (Some no_thinking_client) ''gemini-2.5-flash'' ''a car'' ''studio''
          ''Studio'' [] False)
     = [GenerateContent (refine_request ''gemini-2.5-flash'' ''a car'' ''Studio'' [] False True),
        GenerateContent (refine_request ''gemini-2.5-flash'' ''a car'' ''Studio'' [] False False)]"
    by (elim conjE)
  moreover have "\<exists>e. generate_content no_thinking_client
             (refine_request ''gemini-2.5-flash'' ''a car'' ''Studio'' [] False True) = Inl e"
    using 1 by (rule exI)
  ultimately have 3: "fst (refine_user_prompt (Some no_thinking_client) ''gemini-2.5-flash'' ''a car'' ''studio''
          ''Studio'' [] False)
     = [GenerateContent (refine_request ''gemini-2.5-flash'' ''a car'' ''Studio'' [] False True),
        GenerateContent (refine_request ''gemini-2.5-flash'' ''a car'' ''Studio'' [] False False)]"
    by (rule iffD1)
  from 1 3 2 show ?thesis by (intro conjI)
qed

subsection \<open>\<open>generate_image_and_text\<close>, properties\<close>

lemma chunk_step_fragment:
  "chunk_step chunk (t, i) =
     (t @ texts_of [fragment_of chunk], i @ images_of [fragment_of chunk])"
proof (cases "first_part chunk")
  case None
  then have "chunk_step chunk (t, i) = (t, i)"
    by (auto simp: chunk_step_def first_part_def
             split: option.splits list.splits candidate.splits content.splits)
  with None show ?thesis by (simp add: fragment_of_def)
next
  case (Some p)
  then obtain ps cs where c: "candidates chunk = Some (Candidate (Some (Content (Some (p # ps)))) # cs)"
    by (auto simp: first_part_def
             split: option.splits list.splits candidate.splits content.splits)
  obtain tx b where p: "p = Part tx b" by (cases p)
  show ?thesis
  proof (cases "or_else tx [] = []")
    case False
    then obtain s where "tx = Some s" "s \<noteq> []" by (cases tx) auto
    with c p Some show ?thesis
      by (simp add: chunk_step_def fragment_of_def)
  next
    case True
    then have f: "fragment_of_part p = inline_fragment b"
      using p by (cases tx) auto
    have s: "chunk_step chunk (t, i) =
               (case b of None \<Rightarrow> (t, i)
                | Some bl \<Rightarrow> (case blob_data bl of None \<Rightarrow> (t, i)
                    | Some d \<Rightarrow> if d = [] then (t, i)
                        else (t, i @ [\<lparr>mime_type = or_else (blob_mime_type bl) ''image/png'',
                                        base64 = b64encode d,
                                        data_url = ''data:'' @ or_else (blob_mime_type bl) ''image/png''
                                                     @ '';base64,'' @ b64encode d\<rparr>])))"
      using c p True by (simp add: chunk_step_def Let_def split: option.splits)
    show ?thesis
    proof (cases b)
      case None
      with s f Some show ?thesis by (simp add: fragment_of_def)
    next
      case (Some bl)
      obtain d m where bl: "bl = Blob d m" by (cases bl)
      show ?thesis
      proof (cases d)
        case None
        with s f Some bl \<open>first_part chunk = Some p\<close> show ?thesis by (simp add: fragment_of_def)
      next
        case (Some dd)
        with s f \<open>b = Some bl\<close> bl \<open>first_part chunk = Some p\<close> show ?thesis
          by (simp add: fragment_of_def)
      qed
    qed
  qed
qed

lemma stream_loop_fragments:
  "stream_loop chunks (t, i) =
     (t @ texts_of (map fragment_of chunks), i @ images_of (map fragment_of chunks))"
proof (induction chunks arbitrary: t i)
  case Nil
  show ?case by simp
next
  case (Cons c cs)
  have "texts_of (map fragment_of (c # cs)) = texts_of [fragment_of c] @ texts_of (map fragment_of cs)"
    by (cases "fragment_of c") simp_all
  moreover have "images_of (map fragment_of (c # cs))
                   = images_of [fragment_of c] @ images_of (map fragment_of cs)"
    by (cases "fragment_of c") simp_all
  ultimately show ?case by (simp only: stream_loop.simps chunk_step_fragment Cons.IH append_assoc)
qed

lemma collect_fragments:
  "collect chunks =
     \<lparr>result_text = strip (concat (texts_of (map fragment_of chunks))),
      result_images = images_of (map fragment_of chunks)\<rparr>"
  by (simp add: collect_def stream_loop_fragments)

lemma chunk_step_skip:
  assumes "candidates chunk = None \<or> candidates chunk = Some [] \<or>
           (\<exists>cs. candidates chunk = Some (Candidate None # cs)) \<or>
           (\<exists>cs. candidates chunk = Some (Candidate (Some (Content None)) # cs)) \<or>
           (\<exists>cs. candidates chunk = Some (Candidate (Some (Content (Some []))) # cs))"
  shows "chunk_step chunk acc = acc"
  using assms by (cases acc) (auto simp: chunk_step_def)

lemma chunk_step_text:
  assumes "candidates chunk = Some (Candidate (Some (Content (Some (Part (Some s) b # ps)))) # cs)"
      and "s \<noteq> []"
  shows "chunk_step chunk (t, i) = (t @ [s], i)"
  using assms by (simp add: chunk_step_def)

lemma chunk_step_three:
  "chunk_step chunk (t, i) = (t, i) \<or>
   (\<exists>s. chunk_step chunk (t, i) = (t @ [s], i)) \<or>
   (\<exists>im. chunk_step chunk (t, i) = (t, i @ [im]))"
  by (simp add: chunk_step_def Let_def split: option.splits list.splits)

text \<open>
  C7: when the stream ends without an exception, \<open>generate_image_and_text\<close> has made one call of
  the stream and returns what the reduction over one fragment per chunk gives: the text is the
  concatenation of the text fragments in order of arrival, stripped, and the images are the
  image fragments in order of arrival. The fragment of a chunk is the fragment of the first
  part of its first candidate; a part with a non-empty text is a text fragment; a part without
  text and with non-empty inline data is an image fragment with the MIME type of the data
  (\<open>image/png\<close> when it has none), the base64 text of the bytes, and the data URL
  \<open>data:<mime>;base64,<payload>\<close>.
\<close>

theorem generator_collects:
  "(\<forall>chunks. generate_content_stream cli \<lparr>stream_model = model_name, stream_parts = parts\<rparr>
        = (chunks, None) \<longrightarrow>
      generate_image_and_text (Some cli) model_name parts =
        ([GenerateContentStream \<lparr>stream_model = model_name, stream_parts = parts\<rparr>],
         Inr \<lparr>result_text = strip (concat (texts_of (map fragment_of chunks))),
              result_images = images_of (map fragment_of chunks)\<rparr>)) \<and>
   (\<forall>chunk t b cs ps. chunk = \<lparr>response_text = t,
        candidates = Some (Candidate (Some (Content (Some (b # ps)))) # cs)\<rparr> \<longrightarrow>
      fragment_of chunk = fragment_of_part b) \<and>
   (\<forall>s b. s \<noteq> [] \<longrightarrow> fragment_of_part (Part (Some s) b) = TextFragment s) \<and>
   (\<forall>d m. d \<noteq> [] \<longrightarrow>
      fragment_of_part (Part None (Some (Blob (Some d) m))) =
        ImageFragment \<lparr>mime_type = or_else m ''image/png'',
                       base64 = b64encode d,
                       data_url = ''data:'' @ or_else m ''image/png''
                                  @ '';base64,'' @ b64encode d\<rparr>)"
  by (auto simp: generate_image_and_text_def get_client_def collect_fragments Let_def
        fragment_of_def first_part_def split: option.splits)

theorem generator_collects_witness:
  "generate_content_stream good_client
       \<lparr>stream_model = ''gemini-2.5-flash-image-preview'', stream_parts = [from_text ''a car'']\<rparr>
     = (sample_chunks, None) \<and>
   snd (generate_image_and_text (Some good_client) ''gemini-2.5-flash-image-preview''
          [from_text ''a car''])
     = Inr \<lparr>result_text = ''Here you go'',
            result_images = [\<lparr>mime_type = ''image/png'', base64 = ''TWE='',
                              data_url = ''data:image/png;base64,TWE=''\<rparr>]\<rparr>"
proof -
  have 1: "generate_content_stream good_client
       \<lparr>stream_model = ''gemini-2.5-flash-image-preview'', stream_parts = [from_text ''a car'']\<rparr>
     = (sample_chunks, None)" by (simp add: good_client_def)
  have 2: "strip (concat (texts_of (map fragment_of sample_chunks))) = ''Here you go''" by code_simp
  have 3: "images_of (map fragment_of sample_chunks)
             = [\<lparr>mime_type = ''image/png'', base64 = ''TWE='',
                  data_url = ''data:image/png;base64,TWE=''\<rparr>]" by code_simp
  note t = generator_collects [where cli = good_client
      and model_name = "''gemini-2.5-flash-image-preview''" and parts = "[from_text ''a car'']"]
  from t have "\<forall>chunks. generate_content_stream good_client
       \<lparr>stream_model = ''gemini-2.5-flash-image-preview'', stream_parts = [from_text ''a car'']\<rparr>
        = (chunks, None) \<longrightarrow>
      generate_image_and_text (Some good_client) ''gemini-2.5-flash-image-preview'' [from_text ''a car''] =
        ([GenerateContentStream \<lparr>stream_model = ''gemini-2.5-flash-image-preview'', stream_parts = [from_text ''a car'']\<rparr>],
         Inr \<lparr>result_text = strip (concat (texts_of (map fragment_of chunks))),
              result_images = images_of (map fragment_of chunks)\<rparr>)" by (elim conjE)
  with 1 have "generate_image_and_text (Some good_client) ''gemini-2.5-flash-image-preview'' [from_text ''a car''] =
        ([GenerateContentStream \<lparr>stream_model = ''gemini-2.5-flash-image-preview'', stream_parts = [from_text ''a car'']\<rparr>],
         Inr \<lparr>result_text = strip (concat (texts_of (map fragment_of sample_chunks))),
              result_images = images_of (map fragment_of sample_chunks)\<rparr>)" by blast
  then have "snd (generate_image_and_text (Some good_client) ''gemini-2.5-flash-image-preview'' [from_text ''a car''])
     = Inr \<lparr>result_text = strip (concat (texts_of (map fragment_of sample_chunks))),
              result_images = images_of (map fragment_of sample_chunks)\<rparr>" by simp
  with 1 2 3 show ?thesis by simp
qed

text \<open>
  C10: one pass of the loop body of \<open>generate_image_and_text\<close> leaves both accumulators as
  they are, or appends one text, or appends one image, and never both. When the first part has
  a non-empty text, that text is appended and the images stay as they are, whatever inline data
  the part carries. A chunk with no candidates, with a first candidate without content, or
  with a content without parts leaves the accumulators as they are; the loop body has no
  branch that raises.
\<close>

theorem chunk_step_one_accumulator:
  "(chunk_step chunk (t, i) = (t, i) \<or>
    (\<exists>s. chunk_step chunk (t, i) = (t @ [s], i)) \<or>
    (\<exists>im. chunk_step chunk (t, i) = (t, i @ [im]))) \<and>
   (\<forall>s b ps cs. s \<noteq> [] \<and>
        candidates chunk = Some (Candidate (Some (Content (Some (Part (Some s) b # ps)))) # cs)
      \<longrightarrow> chunk_step chunk (t, i) = (t @ [s], i)) \<and>
   (candidates chunk = None \<or> candidates chunk = Some [] \<or>
    (\<exists>cs. candidates chunk = Some (Candidate None # cs)) \<or>
    (\<exists>cs. candidates chunk = Some (Candidate (Some (Content None)) # cs)) \<or>
    (\<exists>cs. candidates chunk = Some (Candidate (Some (Content (Some []))) # cs))
      \<longrightarrow> chunk_step chunk (t, i) = (t, i))"
  using chunk_step_three chunk_step_text chunk_step_skip by blast

theorem chunk_step_one_accumulator_witness:
  "chunk_step
     \<lparr>response_text = Inr None,
      candidates = Some [Candidate (Some (Content (Some
        [Part (Some ''Hi'') (Some (Blob (Some [0x4D, 0x61]) (Some ''image/png'')))])))]\<rparr>
     ([''a''], []) = ([''a'', ''Hi''], []) \<and>
   candidates empty_response = Some [Candidate (Some (Content None))] \<and>
   chunk_step empty_response ([''a''], []) = ([''a''], [])"
proof -
  let ?c = "\<lparr>response_text = Inr None,
      candidates = Some [Candidate (Some (Content (Some
        [Part (Some ''Hi'') (Some (Blob (Some [0x4D, 0x61 :: byte]) (Some ''image/png'')))])))]\<rparr>"
  have 1: "''Hi'' \<noteq> [] \<and> candidates ?c = Some (Candidate (Some (Content (Some
        (Part (Some ''Hi'') (Some (Blob (Some [0x4D, 0x61]) (Some ''image/png''))) # [])))) # [])"
    by simp
  have 2: "candidates empty_response = Some [Candidate (Some (Content None))]"
    by (simp add: empty_response_def)
  note a = chunk_step_one_accumulator [where chunk = ?c and t = "[''a'']" and i = "[]"]
  note b = chunk_step_one_accumulator [where chunk = empty_response and t = "[''a'']" and i = "[]"]
  from a 1 have 3: "chunk_step ?c ([''a''], []) = ([''a''] @ [''Hi''], [])" by blast
  from b 2 have 4: "chunk_step empty_response ([''a''], []) = ([''a''], [])" by blast
  from 3 2 4 show ?thesis by simp
qed

subsection \<open>The endpoint \<open>generate\<close>, properties\<close>

lemma build_prompt_Inr: "\<exists>s. build_prompt sm other text key = Inr s"
  by (auto simp: build_prompt_def Let_def split: option.splits sum.splits)

lemma refine_user_prompt_events:
  "set (fst (refine_user_prompt ctx m up sk sl sd hi)) \<subseteq> range GenerateContent"
  by (auto simp: refine_user_prompt_def get_client_def Let_def split: option.splits sum.splits)

lemma generate_image_and_text_events:
  "set (fst (generate_image_and_text ctx m ps)) \<subseteq> range GenerateContentStream"
  by (auto simp: generate_image_and_text_def get_client_def Let_def
           split: option.splits sum.splits prod.splits)

lemma refine_step_events:
  "set (fst (refine_step E ctx prompt image_file style)) \<subseteq> range GenerateContent"
  unfolding refine_step_def Let_def by (rule refine_user_prompt_events)

lemma generate_body_events:
  "set (fst (generate_body E ctx prompt image_file style))
     \<subseteq> range GenerateContent \<union> range GenerateContentStream"
proof -
  obtain ev1 r1 where r: "refine_step E ctx prompt image_file style = (ev1, r1)"
    by (cases "refine_step E ctx prompt image_file style")
  have e1: "set ev1 \<subseteq> range GenerateContent"
    using refine_step_events [of E ctx prompt image_file style] r by simp
  have g: "\<And>ps. set (fst (generate_image_and_text ctx (IMAGE_MODEL_NAME E) ps))
              \<subseteq> range GenerateContentStream"
    by (rule generate_image_and_text_events)
  have "fst (generate_body E ctx prompt image_file style) = ev1 \<or>
        (\<exists>ps. fst (generate_body E ctx prompt image_file style)
                = ev1 @ fst (generate_image_and_text ctx (IMAGE_MODEL_NAME E) ps))"
    using r by (auto simp: generate_body_def Let_def case_prod_beta
                     split: option.splits sum.splits)
  then show ?thesis using e1 g by fastforce
qed

lemma generate_body_no_context_events:
  "SetContext \<notin> set (fst (generate_body E ctx prompt image_file style)) \<and>
   ResetContext \<notin> set (fst (generate_body E ctx prompt image_file style))"
  using generate_body_events [of E ctx prompt image_file style] by auto

lemma generate_body_invalid_image:
  assumes "invalid_image img"
      and "refine_step E ctx prompt (Some img) style = (ev, Inr refined)"
  shows "\<exists>d. generate_body E ctx prompt (Some img) style = (ev, Inl (HTTPException 400 d))"
proof -
  obtain fp where fp: "build_prompt (STYLE_MAP E) (format_other E) refined
                         (Some (style_key_of style)) = Inr fp"
    using build_prompt_Inr by blast
  show ?thesis
    using assms fp
    by (auto simp: generate_body_def invalid_image_def Let_def split: sum.splits)
qed

lemma generate_bound:
  assumes "strip api_key \<noteq> []" and "strip prompt \<noteq> []"
      and "Client E (strip api_key) = Inr cli"
  shows "generate E ctx prompt image_file style api_key =
           \<lparr>result = to_http (snd (generate_body E (Some cli) prompt image_file style)),
            context_after = ctx,
            events = [Construct (strip api_key), SetContext]
                       @ fst (generate_body E (Some cli) prompt image_file style)
                       @ [ResetContext]\<rparr>"
proof -
  have "api_key \<noteq> []" "prompt \<noteq> []" using assms(1,2) strip_Nil by auto
  then show ?thesis using assms
    by (simp add: generate_def Let_def split: prod.splits)
qed

lemma refine_step_image:
  "refine_step E ctx prompt (Some a) style = refine_step E ctx prompt (Some b) style"
  by (simp add: refine_step_def)

text \<open>
  C8: when the key or the prompt is empty or only white space, \<open>generate\<close> raises an
  \<open>HTTPException\<close> with status 400 and no event has happened, so \<open>genai.Client\<close> has not been
  called; and when both are present and \<open>genai.Client\<close> raises on the stripped key,
  \<open>generate\<close> raises the 400 \<open>Invalid api_key provided\<close>, the construction being the only event.
\<close>

theorem generate_rejects_blank:
  "(strip api_key = [] \<or> strip prompt = [] \<longrightarrow>
      (\<exists>d. result (generate E ctx prompt image_file style api_key) = Inl (HTTPException 400 d)) \<and>
      events (generate E ctx prompt image_file style api_key) = []) \<and>
   (strip api_key \<noteq> [] \<and> strip prompt \<noteq> [] \<and> (\<exists>e. Client E (strip api_key) = Inl e) \<longrightarrow>
      result (generate E ctx prompt image_file style api_key)
        = Inl (HTTPException 400 ''Invalid api_key provided'') \<and>
      events (generate E ctx prompt image_file style api_key) = [Construct (strip api_key)])"
proof -
  have n: "api_key = [] \<Longrightarrow> strip api_key = []" "prompt = [] \<Longrightarrow> strip prompt = []"
    by (simp_all add: strip_Nil)
  show ?thesis using n by (auto simp: generate_def)
qed

theorem generate_rejects_blank_witness:
  "strip ''  '' = [] \<and>
   result (generate (sample_env good_client) None ''a car'' None (Some ''studio'') ''  '')
     = Inl (HTTPException 400 ''api_key is required'') \<and>
   events (generate (sample_env good_client) None ''a car'' None (Some ''studio'') ''  '') = [] \<and>
   strip '' revoked '' \<noteq> [] \<and> strip ''a car'' \<noteq> [] \<and>
   Client (sample_env good_client) (strip '' revoked '') = Inl (Error ''bad key'') \<and>
   result (generate (sample_env good_client) None ''a car'' None (Some ''studio'') '' revoked '')
     = Inl (HTTPException 400 ''Invalid api_key provided'') \<and>
   events (generate (sample_env good_client) None ''a car'' None (Some ''studio'') '' revoked '')
     = [Construct ''revoked'']"
proof -
  have 1: "strip ''  '' = []" by code_simp
  have 2: "strip '' revoked '' \<noteq> []" by code_simp
  have 3: "strip ''a car'' \<noteq> []" by code_simp
  have 5: "strip '' revoked '' = ''revoked''" by code_simp
  have 4: "Client (sample_env good_client) (strip '' revoked '') = Inl (Error ''bad key'')"
    unfolding 5 by (simp add: sample_env_def)
  have 6: "result (generate (sample_env good_client) None ''a car'' None (Some ''studio'') ''  '')
             = Inl (HTTPException 400 ''api_key is required'')" by code_simp
  note a = generate_rejects_blank [where api_key = "''  ''" and prompt = "''a car''"
      and E = "sample_env good_client" and ctx = None and image_file = None
      and style = "Some ''studio''"]
  note b = generate_rejects_blank [where api_key = "'' revoked ''" and prompt = "''a car''"
      and E = "sample_env good_client" and ctx = None and image_file = None
      and style = "Some ''studio''"]
  from a 1 have 7:
    "events (generate (sample_env good_client) None ''a car'' None (Some ''studio'') ''  '') = []"
    by blast
  from 4 have "\<exists>e. Client (sample_env good_client) (strip '' revoked '') = Inl e" by (rule exI)
  with b 2 3 have 8:
    "result (generate (sample_env good_client) None ''a car'' None (Some ''studio'') '' revoked '')
       = Inl (HTTPException 400 ''Invalid api_key provided'') \<and>
     events (generate (sample_env good_client) None ''a car'' None (Some ''studio'') '' revoked '')
       = [Construct (strip '' revoked '')]" by blast
  from 1 6 7 2 3 4 8 show ?thesis unfolding 5 by (intro conjI) (elim conjE, assumption)+
qed

text \<open>
  C9: whatever \<open>generate\<close> returns or raises, the context variable has on exit the value it
  had on entry. When the client is constructed, the events are the construction, the binding of
  the context variable, the events of the body of the \<open>try\<close> (none of which binds or resets the
  variable), and the reset, which comes last; this holds whether the body returns, raises an
  \<open>HTTPException\<close> or raises another exception (which becomes a 500). The variable is reset
  exactly when it has been set.
\<close>

theorem generate_resets_context:
  "context_after (generate E ctx prompt image_file style api_key) = ctx \<and>
   (\<forall>cli. strip api_key \<noteq> [] \<and> strip prompt \<noteq> [] \<and> Client E (strip api_key) = Inr cli \<longrightarrow>
      events (generate E ctx prompt image_file style api_key)
        = [Construct (strip api_key), SetContext]
            @ fst (generate_body E (Some cli) prompt image_file style) @ [ResetContext] \<and>
      SetContext \<notin> set (fst (generate_body E (Some cli) prompt image_file style)) \<and>
      ResetContext \<notin> set (fst (generate_body E (Some cli) prompt image_file style)) \<and>
      result (generate E ctx prompt image_file style api_key)
        = to_http (snd (generate_body E (Some cli) prompt image_file style))) \<and>
   (SetContext \<in> set (events (generate E ctx prompt image_file style api_key)) \<longleftrightarrow>
    ResetContext \<in> set (events (generate E ctx prompt image_file style api_key)))"
proof -
  have 1: "context_after (generate E ctx prompt image_file style api_key) = ctx"
    by (simp add: generate_def Let_def split: sum.splits prod.splits)
  have 2: "\<forall>cli. strip api_key \<noteq> [] \<and> strip prompt \<noteq> [] \<and> Client E (strip api_key) = Inr cli \<longrightarrow>
      events (generate E ctx prompt image_file style api_key)
        = [Construct (strip api_key), SetContext]
            @ fst (generate_body E (Some cli) prompt image_file style) @ [ResetContext] \<and>
      SetContext \<notin> set (fst (generate_body E (Some cli) prompt image_file style)) \<and>
      ResetContext \<notin> set (fst (generate_body E (Some cli) prompt image_file style)) \<and>
      result (generate E ctx prompt image_file style api_key)
        = to_http (snd (generate_body E (Some cli) prompt image_file style))"
    using generate_body_no_context_events by (simp add: generate_bound)
  have 3: "SetContext \<in> set (events (generate E ctx prompt image_file style api_key)) \<longleftrightarrow>
           ResetContext \<in> set (events (generate E ctx prompt image_file style api_key))"
  proof (cases "strip api_key \<noteq> [] \<and> strip prompt \<noteq> [] \<and> (\<exists>cli. Client E (strip api_key) = Inr cli)")
    case True
    then obtain cli where "strip api_key \<noteq> []" "strip prompt \<noteq> []" "Client E (strip api_key) = Inr cli"
      by blast
    then show ?thesis by (simp add: generate_bound)
  next
    case False
    then have "strip api_key = [] \<or> strip prompt = [] \<or> (\<exists>e. Client E (strip api_key) = Inl e)"
      by (cases "Client E (strip api_key)") auto
    then show ?thesis by (auto simp: generate_def)
  qed
  from 1 2 3 show ?thesis by (intro conjI)
qed

theorem generate_resets_context_witness:
  "strip ''key'' \<noteq> [] \<and> strip ''a car'' \<noteq> [] \<and>
   Client (sample_env good_client) (strip ''key'') = Inr good_client \<and>
   Client (sample_env failing_client) (strip ''key'') = Inr failing_client \<and>
   result (generate (sample_env good_client) None ''a car'' None (Some ''studio'') ''key'')
     = Inr \<lparr>result_text = ''Here you go'',
            result_images = [\<lparr>mime_type = ''image/png'', base64 = ''TWE='',
                              data_url = ''data:image/png;base64,TWE=''\<rparr>]\<rparr> \<and>
   context_after (generate (sample_env good_client) None ''a car'' None (Some ''studio'') ''key'')
     = None \<and>
   last (events (generate (sample_env good_client) None ''a car'' None (Some ''studio'') ''key''))
     = ResetContext \<and>
   result (generate (sample_env good_client) None ''a car'' (Some text_upload) (Some ''studio'')
             ''key'')
     = Inl (HTTPException 400 ''image must be of type image/*'') \<and>
   context_after (generate (sample_env good_client) None ''a car'' (Some text_upload)
                    (Some ''studio'') ''key'') = None \<and>
   last (events (generate (sample_env good_client) None ''a car'' (Some text_upload)
                   (Some ''studio'') ''key'')) = ResetContext \<and>
   result (generate (sample_env failing_client) None ''a car'' None (Some ''studio'') ''key'')
     = Inl (HTTPException 500 ''Generation failed: model unavailable'') \<and>
   context_after (generate (sample_env failing_client) None ''a car'' None (Some ''studio'')
                    ''key'') = None \<and>
   last (events (generate (sample_env failing_client) None ''a car'' None (Some ''studio'')
                   ''key'')) = ResetContext"
proof -
  have k: "strip ''key'' = ''key''" by code_simp
  have 1: "strip ''key'' \<noteq> []" by code_simp
  have 2: "strip ''a car'' \<noteq> []" by code_simp
  have 3: "Client (sample_env good_client) (strip ''key'') = Inr good_client"
    unfolding k by (simp add: sample_env_def)
  have 4: "Client (sample_env failing_client) (strip ''key'') = Inr failing_client"
    unfolding k by (simp add: sample_env_def)
  have r1: "result (generate (sample_env good_client) None ''a car'' None (Some ''studio'') ''key'')
     = Inr \<lparr>result_text = ''Here you go'',
            result_images = [\<lparr>mime_type = ''image/png'', base64 = ''TWE='',
                              data_url = ''data:image/png;base64,TWE=''\<rparr>]\<rparr>" by code_simp
  have r2: "result (generate (sample_env good_client) None ''a car'' (Some text_upload)
              (Some ''studio'') ''key'')
     = Inl (HTTPException 400 ''image must be of type image/*'')" by code_simp
  have r3: "result (generate (sample_env failing_client) None ''a car'' None (Some ''studio'')
              ''key'')
     = Inl (HTTPException 500 ''Generation failed: model unavailable'')" by code_simp
  note a = generate_resets_context [where E = "sample_env good_client" and ctx = None
      and prompt = "''a car''" and image_file = None and style = "Some ''studio''"
      and api_key = "''key''"]
  note b = generate_resets_context [where E = "sample_env good_client" and ctx = None
      and prompt = "''a car''" and image_file = "Some text_upload" and style = "Some ''studio''"
      and api_key = "''key''"]
  note c = generate_resets_context [where E = "sample_env failing_client" and ctx = None
      and prompt = "''a car''" and image_file = None and style = "Some ''studio''"
      and api_key = "''key''"]
  from a have c1: "context_after (generate (sample_env good_client) None ''a car'' None
                     (Some ''studio'') ''key'') = None" by (elim conjE)
  from b have c2: "context_after (generate (sample_env good_client) None ''a car''
                     (Some text_upload) (Some ''studio'') ''key'') = None" by (elim conjE)
  from c have c3: "context_after (generate (sample_env failing_client) None ''a car'' None
                     (Some ''studio'') ''key'') = None" by (elim conjE)
  from a 1 2 3 have "events (generate (sample_env good_client) None ''a car'' None
                        (Some ''studio'') ''key'')
      = [Construct (strip ''key''), SetContext]
          @ fst (generate_body (sample_env good_client) (Some good_client) ''a car'' None
                   (Some ''studio'')) @ [ResetContext]" by blast
  then have e1: "last (events (generate (sample_env good_client) None ''a car'' None
                   (Some ''studio'') ''key'')) = ResetContext" by simp
  from b 1 2 3 have "events (generate (sample_env good_client) None ''a car'' (Some text_upload)
                        (Some ''studio'') ''key'')
      = [Construct (strip ''key''), SetContext]
          @ fst (generate_body (sample_env good_client) (Some good_client) ''a car''
                   (Some text_upload) (Some ''studio'')) @ [ResetContext]" by blast
  then have e2: "last (events (generate (sample_env good_client) None ''a car''
                   (Some text_upload) (Some ''studio'') ''key'')) = ResetContext" by simp
  from c 1 2 4 have "events (generate (sample_env failing_client) None ''a car'' None
                        (Some ''studio'') ''key'')
      = [Construct (strip ''key''), SetContext]
          @ fst (generate_body (sample_env failing_client) (Some failing_client) ''a car'' None
                   (Some ''studio'')) @ [ResetContext]" by blast
  then have e3: "last (events (generate (sample_env failing_client) None ''a car'' None
                   (Some ''studio'') ''key'')) = ResetContext" by simp
  from 1 2 3 4 r1 c1 e1 r2 c2 e2 r3 c3 e3 show ?thesis by (intro conjI)
qed

text \<open>
  C1, as stated, fails: the image is checked at lines 231 to 239, after the refiner has been
  called at line 217. With an upload of type \<open>text/plain\<close> the text model is called before the
  400 is raised; and when the text model fails on both calls, the request ends with a 500 and
  the image is never checked.
\<close>

theorem generate_invalid_image_counterexample:
  "invalid_image text_upload \<and>
   events (generate (sample_env good_client) None ''a car'' (Some text_upload) (Some ''none'') ''key'')
     = [Construct ''key'', SetContext,
        GenerateContent (refine_request ''gemini-2.5-flash'' ''a car'' ''none'' [] True True),
        ResetContext] \<and>
   result (generate (sample_env good_client) None ''a car'' (Some text_upload) (Some ''none'') ''key'')
     = Inl (HTTPException 400 ''image must be of type image/*'') \<and>
   events (generate (sample_env failing_client) None ''a car'' (Some text_upload) (Some ''none'') ''key'')
     = [Construct ''key'', SetContext,
        GenerateContent (refine_request ''gemini-2.5-flash'' ''a car'' ''none'' [] True True),
        GenerateContent (refine_request ''gemini-2.5-flash'' ''a car'' ''none'' [] True False),
        ResetContext] \<and>
   result (generate (sample_env failing_client) None ''a car'' (Some text_upload) (Some ''none'') ''key'')
     = Inl (HTTPException 500 ''Generation failed: model unavailable'')"
  by code_simp

text \<open>
  C1, amended: for a request with a key and a prompt that are not blank, a client that can be
  constructed and an invalid image (a content type that does not start with \<open>image/\<close>, an
  empty payload, or more than 7 MiB), once the refiner has returned, \<open>generate\<close> raises an
  \<open>HTTPException\<close> with status 400; the only model calls made are those of the refiner, and
  the generator is never called.
\<close>

theorem generate_invalid_image:
  assumes "strip api_key \<noteq> []" and "strip prompt \<noteq> []"
      and "Client E (strip api_key) = Inr cli"
      and "invalid_image img"
      and "refine_step E (Some cli) prompt (Some img) style = (ev, Inr refined)"
  shows "(\<exists>d. result (generate E ctx prompt (Some img) style api_key) = Inl (HTTPException 400 d)) \<and>
         events (generate E ctx prompt (Some img) style api_key)
           = [Construct (strip api_key), SetContext] @ ev @ [ResetContext] \<and>
         set ev \<subseteq> range GenerateContent \<and>
         (\<forall>r. GenerateContentStream r \<notin> set (events (generate E ctx prompt (Some img) style api_key)))"
proof -
  obtain d where b: "generate_body E (Some cli) prompt (Some img) style
                       = (ev, Inl (HTTPException 400 d))"
    using generate_body_invalid_image [OF assms(4,5)] by blast
  have e: "set ev \<subseteq> range GenerateContent"
    using refine_step_events [of E "Some cli" prompt "Some img" style] assms(5) by simp
  have g: "generate E ctx prompt (Some img) style api_key =
             \<lparr>result = Inl (HTTPException 400 d), context_after = ctx,
              events = [Construct (strip api_key), SetContext] @ ev @ [ResetContext]\<rparr>"
    using generate_bound [OF assms(1,2,3), of ctx "Some img" style] b by simp
  from e have "\<forall>r. GenerateContentStream r \<notin> set ev" by auto
  with g e show ?thesis by simp
qed

theorem generate_invalid_image_witness:
  "strip ''key'' \<noteq> [] \<and> strip ''a car'' \<noteq> [] \<and>
   Client (sample_env good_client) (strip ''key'') = Inr good_client \<and>
   invalid_image large_upload \<and>
   refine_step (sample_env good_client) (Some good_client) ''a car'' (Some large_upload)
       (Some ''studio'')
     = ([GenerateContent (refine_request ''gemini-2.5-flash'' ''a car'' ''Studio''
           ''Studio shot: {user_prompt}, softbox lighting'' True True)], Inr ''a red car at dusk'') \<and>
   (\<exists>d. result (generate (sample_env good_client) None ''a car'' (Some large_upload)
            (Some ''studio'') ''key'') = Inl (HTTPException 400 d)) \<and>
   events (generate (sample_env good_client) None ''a car'' (Some large_upload) (Some ''studio'')
             ''key'')
     = [Construct ''key'', SetContext,
        GenerateContent (refine_request ''gemini-2.5-flash'' ''a car'' ''Studio''
           ''Studio shot: {user_prompt}, softbox lighting'' True True),
        ResetContext]"
proof -
  have k: "strip ''key'' = ''key''" by code_simp
  have 1: "strip ''key'' \<noteq> []" by code_simp
  have 2: "strip ''a car'' \<noteq> []" by code_simp
  have 3: "Client (sample_env good_client) (strip ''key'') = Inr good_client"
    unfolding k by (simp add: sample_env_def)
  have s: "startswith ''image/png'' ''image/''" by code_simp
  have 4: "invalid_image large_upload"
    using s by (simp add: invalid_image_def large_upload_def MAX_IMAGE_BYTES_def)
  have "refine_step (sample_env good_client) (Some good_client) ''a car'' (Some text_upload)
          (Some ''studio'')
        = ([GenerateContent (refine_request ''gemini-2.5-flash'' ''a car'' ''Studio''
             ''Studio shot: {user_prompt}, softbox lighting'' True True)], Inr ''a red car at dusk'')"
    by code_simp
  then have 5: "refine_step (sample_env good_client) (Some good_client) ''a car''
          (Some large_upload) (Some ''studio'')
        = ([GenerateContent (refine_request ''gemini-2.5-flash'' ''a car'' ''Studio''
             ''Studio shot: {user_prompt}, softbox lighting'' True True)], Inr ''a red car at dusk'')"
    by (simp only: refine_step_image [of _ _ _ large_upload _ text_upload])
  note t = generate_invalid_image [where api_key = "''key''" and prompt = "''a car''"
      and E = "sample_env good_client" and cli = good_client and img = large_upload
      and style = "Some ''studio''" and ctx = None and refined = "''a red car at dusk''"
      and ev = "[GenerateContent (refine_request ''gemini-2.5-flash'' ''a car'' ''Studio''
             ''Studio shot: {user_prompt}, softbox lighting'' True True)]"]
  note u = t [OF 1 2 3 4 5]
  from u have 6: "\<exists>d. result (generate (sample_env good_client) None ''a car'' (Some large_upload)
            (Some ''studio'') ''key'') = Inl (HTTPException 400 d)" by (elim conjE)
  from u have 7: "events (generate (sample_env good_client) None ''a car'' (Some large_upload)
             (Some ''studio'') ''key'')
     = [Construct ''key'', SetContext,
        GenerateContent (refine_request ''gemini-2.5-flash'' ''a car'' ''Studio''
           ''Studio shot: {user_prompt}, softbox lighting'' True True),
        ResetContext]" unfolding k by simp
  from 1 2 3 4 5 6 7 show ?thesis by (intro conjI)
qed

end
